theory Spec2Isabelle
  imports Complex_Main
begin

section \<open>JavaScript numbers and strings\<close>

text \<open>
  The scorer of the SEI credit-score service works on JavaScript numbers. A number is
  modelled as an exact rational or \<open>NaN\<close>: \<open>parseInt\<close> and an invalid \<open>Date\<close>
  produce \<open>NaN\<close>, and every comparison with \<open>NaN\<close> is false. The rounding of
  IEEE doubles is not modelled: arithmetic is exact.
\<close>

datatype number = NaN | Num rat

text \<open>\<open>x > c\<close> for a number \<open>x\<close> and a literal \<open>c\<close>.\<close>

fun num_gt :: "number \<Rightarrow> rat \<Rightarrow> bool" where
  "num_gt NaN c = False"
| "num_gt (Num x) c = (c < x)"

fun num_map :: "(rat \<Rightarrow> rat) \<Rightarrow> number \<Rightarrow> number" where
  "num_map f NaN = NaN"
| "num_map f (Num x) = Num (f x)"

fun num_add :: "number \<Rightarrow> number \<Rightarrow> number" where
  "num_add (Num x) (Num y) = Num (x + y)"
| "num_add _ _ = NaN"

text \<open>\<open>Math.round\<close>: the nearest integer, a tie going up.\<close>

definition Math_round :: "rat \<Rightarrow> int" where
  "Math_round x = \<lfloor>x + 1 / 2\<rfloor>"

definition Math_max :: "rat \<Rightarrow> rat \<Rightarrow> rat" where
  "Math_max a b = (if a < b then b else a)"

text \<open>
  Strings are lists of characters. \<open>toLowerCase\<close> is modelled on ASCII letters, which
  is where the method names the scorer looks for live.
\<close>

definition lower_char :: "char \<Rightarrow> char" where
  "lower_char c =
     (let n = (of_char c :: nat) in if 65 \<le> n \<and> n \<le> 90 then char_of (n + 32) else c)"

definition toLowerCase :: "string \<Rightarrow> string" where
  "toLowerCase s = map lower_char s"

definition startsWith :: "string \<Rightarrow> string \<Rightarrow> bool" where
  "startsWith s p = (take (length p) s = p)"

fun includes_str :: "string \<Rightarrow> string \<Rightarrow> bool" where
  "includes_str [] sub = (sub = [])"
| "includes_str (c # cs) sub = (startsWith (c # cs) sub \<or> includes_str cs sub)"

text \<open>
  \<open>parseInt(s, radix)\<close>: leading white space and a sign are skipped, a \<open>0x\<close> prefix is
  skipped when the radix is 16 or absent, and the longest run of digits of the radix is
  read; no digit at all gives \<open>NaN\<close>.
\<close>

definition is_ws :: "char \<Rightarrow> bool" where
  "is_ws c = ((of_char c :: nat) \<in> {9, 10, 11, 12, 13, 32})"

definition digit_val :: "char \<Rightarrow> nat option" where
  "digit_val c =
     (let n = (of_char c :: nat) in
      if 48 \<le> n \<and> n \<le> 57 then Some (n - 48)
      else if 97 \<le> n \<and> n \<le> 122 then Some (n - 87)
      else if 65 \<le> n \<and> n \<le> 90 then Some (n - 55)
      else None)"

definition is_digit :: "nat \<Rightarrow> char \<Rightarrow> bool" where
  "is_digit R c = (case digit_val c of None \<Rightarrow> False | Some d \<Rightarrow> d < R)"

fun digits_value :: "nat \<Rightarrow> int \<Rightarrow> string \<Rightarrow> int" where
  "digits_value R acc [] = acc"
| "digits_value R acc (c # cs) =
     digits_value R (acc * int R + (case digit_val c of None \<Rightarrow> 0 | Some d \<Rightarrow> int d)) cs"

definition parseInt :: "string \<Rightarrow> nat option \<Rightarrow> number" where
  "parseInt s radix =
     (let s1 = dropWhile is_ws s;
          neg = (take 1 s1 = ''-'');
          s2 = (if take 1 s1 = ''-'' \<or> take 1 s1 = ''+'' then drop 1 s1 else s1);
          R0 = (case radix of None \<Rightarrow> 0 | Some r \<Rightarrow> r);
          strip = ((R0 = 0 \<or> R0 = 16) \<and> (take 2 s2 = ''0x'' \<or> take 2 s2 = ''0X''));
          R = (if strip then 16 else if R0 = 0 then 10 else R0);
          s3 = (if strip then drop 2 s2 else s2);
          ds = takeWhile (is_digit R) s3
      in if R < 2 \<or> 36 < R \<or> ds = [] then NaN
         else Num (of_int (digits_value R 0 ds * (if neg then - 1 else 1))))"

section \<open>Address validation\<close>

text \<open>
  \<open>isValidSeiAddress\<close> tests the address against
  \<^verbatim>\<open>/^sei[a-z0-9]{39,59}$/\<close> and \<^verbatim>\<open>/^0x[a-fA-F0-9]{40}$/\<close>.
\<close>

definition is_lower_alnum :: "char \<Rightarrow> bool" where
  "is_lower_alnum c =
     (let n = (of_char c :: nat) in (97 \<le> n \<and> n \<le> 122) \<or> (48 \<le> n \<and> n \<le> 57))"

definition is_hex :: "char \<Rightarrow> bool" where
  "is_hex c =
     (let n = (of_char c :: nat) in
      (97 \<le> n \<and> n \<le> 102) \<or> (65 \<le> n \<and> n \<le> 70) \<or> (48 \<le> n \<and> n \<le> 57))"

definition bech32Regex :: "string \<Rightarrow> bool" where
  "bech32Regex s =
     (take 3 s = ''sei'' \<and> 39 \<le> length (drop 3 s) \<and> length (drop 3 s) \<le> 59
      \<and> list_all is_lower_alnum (drop 3 s))"

definition evmRegex :: "string \<Rightarrow> bool" where
  "evmRegex s =
     (take 2 s = ''0x'' \<and> length (drop 2 s) = 40 \<and> list_all is_hex (drop 2 s))"

definition isValidSeiAddress :: "string \<Rightarrow> bool" where
  "isValidSeiAddress address = (bech32Regex address \<or> evmRegex address)"

section \<open>Responses of the data providers\<close>

text \<open>
  A \<open>fetch\<close> either fails (the promise rejects, or the body is not JSON), answers with a
  status that is not \<open>ok\<close>, or delivers a JSON body.
\<close>

datatype 'a http = Failed | NotOk | Json 'a

text \<open>An item of the explorer's transaction list (\<open>ExplorerTransaction\<close>).\<close>

record explorer_tx =
  ex_timestamp :: string
  ex_block_number :: int
  ex_hash :: string
  ex_method :: "string option"
  ex_to :: "string option"
  ex_from :: "string option"

text \<open>
  A transaction as \<open>fetchWalletTransactions\<close> returns it. \<open>height\<close> holds the integer
  that \<open>parseInt\<close> reads from the height string; \<open>tx_method\<close>, \<open>tx_to\<close> and
  \<open>tx_from\<close> are absent on the transactions of the REST search.
\<close>

record wallet_tx =
  txhash :: string
  height :: int
  timestamp :: string
  tx_method :: "string option"
  tx_to :: "string option"
  tx_from :: "string option"

record tx_search_body =
  txs :: "wallet_tx list option"

record counters_body =
  cb_transaction_count :: "rat option"
  cb_unique_addresses :: "string list option"

record coin =
  denom :: string
  amount :: string

record bank_body =
  balances :: "coin list"

record delegation_response =
  validator_address :: string
  balance :: coin

record staking_body =
  delegation_responses :: "delegation_response list option"

record evm_body =
  evm_error :: "string option"
  evm_result :: string

text \<open>
  The requests the fetchers issue, and the world that answers them. \<open>date_time s\<close> is
  \<open>new Date(s).getTime()\<close> and \<open>now\<close> is \<open>Date.now()\<close>.
\<close>

datatype request =
    GetExplorerTransactions string nat "string option"
  | GetExplorerCounters string
  | PostEvmGetBalance string
  | GetBankBalances string
  | GetStakingDelegations string
  | GetTxSearch string nat

record world =
  explorer_transactions :: "string \<Rightarrow> nat \<Rightarrow> string option \<Rightarrow> explorer_tx list http"
  explorer_counters :: "string \<Rightarrow> counters_body http"
  evm_get_balance :: "string \<Rightarrow> evm_body http"
  bank_balances :: "string \<Rightarrow> bank_body http"
  staking_delegations :: "string \<Rightarrow> staking_body http"
  tx_search :: "string \<Rightarrow> nat \<Rightarrow> tx_search_body http"
  date_time :: "string \<Rightarrow> number"
  now :: rat

section \<open>Data fetchers\<close>

text \<open>Every fetcher returns its value together with the requests it issued, in order.\<close>

record first_tx_info =
  fti_timestamp :: "number option"
  fti_blockNumber :: "int option"

definition fetchFirstTransactionInfo :: "world \<Rightarrow> string \<Rightarrow> first_tx_info \<times> request list" where
  "fetchFirstTransactionInfo w walletAddress =
     (case explorer_transactions w walletAddress 1 (Some ''asc'') of
        Json items \<Rightarrow>
          (case items of
             [] \<Rightarrow> \<lparr>fti_timestamp = None, fti_blockNumber = None\<rparr>
           | tx # _ \<Rightarrow>
               \<lparr>fti_timestamp = Some (date_time w (ex_timestamp tx)),
                fti_blockNumber =
                  (if ex_block_number tx = 0 then None else Some (ex_block_number tx))\<rparr>)
      | _ \<Rightarrow> \<lparr>fti_timestamp = None, fti_blockNumber = None\<rparr>,
      [GetExplorerTransactions walletAddress 1 (Some ''asc'')])"

record wallet_counters =
  transaction_count :: rat
  unique_addresses :: "string list"

definition fetchWalletCounters :: "world \<Rightarrow> string \<Rightarrow> wallet_counters \<times> request list" where
  "fetchWalletCounters w walletAddress =
     (case explorer_counters w walletAddress of
        Json d \<Rightarrow>
          \<lparr>transaction_count = (case cb_transaction_count d of None \<Rightarrow> 0 | Some n \<Rightarrow> n),
           unique_addresses = (case cb_unique_addresses d of None \<Rightarrow> [] | Some us \<Rightarrow> us)\<rparr>
      | _ \<Rightarrow> \<lparr>transaction_count = 0, unique_addresses = []\<rparr>,
      [GetExplorerCounters walletAddress])"

definition fetchEvmBalance :: "world \<Rightarrow> string \<Rightarrow> number \<times> request list" where
  "fetchEvmBalance w walletAddress =
     (case evm_get_balance w walletAddress of
        Json d \<Rightarrow>
          (case evm_error d of
             Some _ \<Rightarrow> Num 0
           | None \<Rightarrow> num_map (\<lambda>balanceWei. balanceWei / 10 ^ 18) (parseInt (evm_result d) (Some 16)))
      | _ \<Rightarrow> Num 0,
      [PostEvmGetBalance walletAddress])"

text \<open>The Cosmos bank query of \<open>fetchWalletBalance\<close>, with the \<open>catch\<close> that returns 0.\<close>

definition cosmos_balance :: "world \<Rightarrow> string \<Rightarrow> number" where
  "cosmos_balance w walletAddress =
     (case bank_balances w walletAddress of
        Json d \<Rightarrow>
          (case find (\<lambda>b. denom b = ''usei'') (balances d) of
             Some seiBalance \<Rightarrow> num_map (\<lambda>x. x / 1000000) (parseInt (amount seiBalance) None)
           | None \<Rightarrow> Num 0)
      | _ \<Rightarrow> Num 0)"

definition fetchWalletBalance :: "world \<Rightarrow> string \<Rightarrow> number \<times> request list" where
  "fetchWalletBalance w walletAddress =
     (if startsWith walletAddress ''0x'' then
        (case fetchEvmBalance w walletAddress of
           (evmBalance, reqs) \<Rightarrow>
             if num_gt evmBalance 0 then (evmBalance, reqs)
             else (cosmos_balance w walletAddress, reqs @ [GetBankBalances walletAddress]))
      else (cosmos_balance w walletAddress, [GetBankBalances walletAddress]))"

definition fetchStakingInfo :: "world \<Rightarrow> string \<Rightarrow> delegation_response list \<times> request list" where
  "fetchStakingInfo w walletAddress =
     (case staking_delegations w walletAddress of
        Json d \<Rightarrow> (case delegation_responses d of None \<Rightarrow> [] | Some ds \<Rightarrow> ds)
      | _ \<Rightarrow> [],
      [GetStakingDelegations walletAddress])"

text \<open>
  \<open>Array.prototype.sort\<close> with a comparator is a stable sort; it is modelled by stable
  insertion. \<open>cmp a b \<le> 0\<close> keeps \<open>a\<close> in front of \<open>b\<close>.
\<close>

fun insert_by :: "('a \<Rightarrow> 'a \<Rightarrow> int) \<Rightarrow> 'a \<Rightarrow> 'a list \<Rightarrow> 'a list" where
  "insert_by cmp x [] = [x]"
| "insert_by cmp x (y # ys) = (if cmp x y \<le> 0 then x # y # ys else y # insert_by cmp x ys)"

definition array_sort :: "('a \<Rightarrow> 'a \<Rightarrow> int) \<Rightarrow> 'a list \<Rightarrow> 'a list" where
  "array_sort cmp xs = foldr (insert_by cmp) xs []"

definition of_explorer :: "explorer_tx \<Rightarrow> wallet_tx" where
  "of_explorer tx =
     \<lparr>txhash = ex_hash tx, height = ex_block_number tx, timestamp = ex_timestamp tx,
      tx_method = ex_method tx, tx_to = ex_to tx, tx_from = ex_from tx\<rparr>"

definition quoted :: "string \<Rightarrow> string" where
  "quoted s = CHR 0x27 # s @ [CHR 0x27]"

definition queries :: "string \<Rightarrow> string list" where
  "queries walletAddress =
     [''message.sender='' @ quoted walletAddress,
      ''transfer.recipient='' @ quoted walletAddress,
      ''transfer.sender='' @ quoted walletAddress,
      ''coin_received.receiver='' @ quoted walletAddress,
      ''coin_spent.spender='' @ quoted walletAddress]"

text \<open>
  One round of the loop over the queries: a failed query leaves \<open>allTransactions\<close> as it
  is, a successful one appends the transactions whose hash is not there yet.
\<close>

definition query_step :: "world \<Rightarrow> nat \<Rightarrow> wallet_tx list \<Rightarrow> string \<Rightarrow> wallet_tx list" where
  "query_step w limit allTransactions query =
     (case tx_search w query limit of
        Json d \<Rightarrow>
          (case txs d of
             Some ts \<Rightarrow>
               if ts \<noteq> [] then
                 allTransactions @
                   filter (\<lambda>tx. \<not> list_ex (\<lambda>existing. txhash existing = txhash tx) allTransactions) ts
               else allTransactions
           | None \<Rightarrow> allTransactions)
      | _ \<Rightarrow> allTransactions)"

fun query_loop :: "world \<Rightarrow> nat \<Rightarrow> string list \<Rightarrow> wallet_tx list \<Rightarrow> wallet_tx list" where
  "query_loop w limit [] allTransactions = allTransactions"
| "query_loop w limit (query # rest) allTransactions =
     query_loop w limit rest (query_step w limit allTransactions query)"

text \<open>The fallback tier of \<open>fetchWalletTransactions\<close>: the REST search.\<close>

definition fallback_tier :: "world \<Rightarrow> string \<Rightarrow> nat \<Rightarrow> wallet_tx list \<times> request list" where
  "fallback_tier w walletAddress limit =
     (take limit
        (array_sort (\<lambda>a b. height b - height a)
           (query_loop w limit (queries walletAddress) [])),
      map (\<lambda>query. GetTxSearch query limit) (queries walletAddress))"

definition fetchWalletTransactions :: "world \<Rightarrow> string \<Rightarrow> nat \<Rightarrow> wallet_tx list \<times> request list" where
  "fetchWalletTransactions w walletAddress limit =
     (let explorer = [GetExplorerTransactions walletAddress limit None]
      in case explorer_transactions w walletAddress limit None of
           Json transactions \<Rightarrow>
             if transactions \<noteq> [] then (map of_explorer transactions, explorer)
             else (case fallback_tier w walletAddress limit of
                     (result, reqs) \<Rightarrow> (result, explorer @ reqs))
         | _ \<Rightarrow>
             (case fallback_tier w walletAddress limit of
                (result, reqs) \<Rightarrow> (result, explorer @ reqs)))"

section \<open>The scoring engine: \<open>DeFiCreditScorer\<close>\<close>

definition BASE_SCORE :: rat where
  "BASE_SCORE = 500"

definition WEIGHTS_age :: rat where
  "WEIGHTS_age = 15 / 100"

definition WEIGHTS_transactions :: rat where
  "WEIGHTS_transactions = 20 / 100"

definition WEIGHTS_balance :: rat where
  "WEIGHTS_balance = 25 / 100"

definition WEIGHTS_repayment :: rat where
  "WEIGHTS_repayment = 30 / 100"

definition WEIGHTS_defi :: rat where
  "WEIGHTS_defi = 10 / 100"

definition scoreAge :: "number option \<Rightarrow> rat" where
  "scoreAge days =
     (case days of
        None \<Rightarrow> - 50
      | Some d \<Rightarrow>
          if num_gt d 730 then 100
          else if num_gt d 365 then 60
          else if num_gt d 90 then 20
          else - 30)"

definition scoreTransactions :: "number \<Rightarrow> rat" where
  "scoreTransactions txCount =
     (if num_gt txCount 2000 then 100
      else if num_gt txCount 300 then 60
      else if num_gt txCount 50 then 20
      else - 20)"

definition scoreBalance :: "number \<Rightarrow> rat" where
  "scoreBalance seiBalance =
     (if num_gt seiBalance 5000 then 100
      else if num_gt seiBalance 500 then 60
      else if num_gt seiBalance 50 then 20
      else - 30)"

text \<open>\<open>tx.method?.toLowerCase() || ''\<close> and \<open>tx.method?.toLowerCase().includes(s)\<close>.\<close>

definition method_or_empty :: "wallet_tx \<Rightarrow> string" where
  "method_or_empty tx = (case tx_method tx of None \<Rightarrow> [] | Some m \<Rightarrow> toLowerCase m)"

definition method_includes :: "string \<Rightarrow> wallet_tx \<Rightarrow> bool" where
  "method_includes s tx =
     (case tx_method tx of None \<Rightarrow> False | Some m \<Rightarrow> includes_str (toLowerCase m) s)"

definition defiTxs :: "wallet_tx list \<Rightarrow> wallet_tx list" where
  "defiTxs transactions =
     filter (\<lambda>tx. includes_str (method_or_empty tx) ''borrow''
                \<or> includes_str (method_or_empty tx) ''repay''
                \<or> includes_str (method_or_empty tx) ''liquidat''
                \<or> includes_str (method_or_empty tx) ''lend'') transactions"

definition scoreRepayment :: "wallet_tx list \<Rightarrow> rat" where
  "scoreRepayment transactions =
     (let borrowTxs = filter (method_includes ''borrow'') (defiTxs transactions);
          repayTxs = filter (method_includes ''repay'') (defiTxs transactions);
          liquidationTxs = filter (method_includes ''liquidat'') (defiTxs transactions)
      in if length borrowTxs = 0 then 0
         else
           (let repaymentRatio = (of_nat (length repayTxs) :: rat) / of_nat (length borrowTxs);
                liquidationRatio = (of_nat (length liquidationTxs) :: rat) / of_nat (length borrowTxs)
            in if liquidationRatio = 0 \<and> 8 / 10 \<le> repaymentRatio then 100
               else if liquidationRatio < 1 / 10 \<and> 6 / 10 \<le> repaymentRatio then 60
               else if liquidationRatio < 25 / 100 then 0
               else Math_max (- 150) (- 150 * liquidationRatio)))"

definition scoreDeFiExtras :: "number \<Rightarrow> rat" where
  "scoreDeFiExtras uniqueContracts =
     (if num_gt uniqueContracts 25 then 30
      else if num_gt uniqueContracts 10 then 10
      else 0)"

datatype risk_level = Low | Medium | High

record factors =
  transactionHistory :: int
  liquidityProvision :: int
  defiInteractions :: int
  networkParticipation :: int

record raw_data =
  transactionCount :: rat
  totalBalance :: number
  totalStaked :: number
  accountAgeDays :: "number option"
  defiTransactionCount :: nat
  uniqueContractsInteracted :: nat

record score_report =
  score :: int
  accuracy :: int
  grade :: string
  riskLevel :: risk_level
  report_factors :: factors
  walletAddress :: string
  rawData :: raw_data

text \<open>
  The steps of \<open>calculate\<close>, each under the name of the variable it assigns: the weighted
  \<open>rawScore\<close>, the clamped \<open>finalScore\<close>, the chain of comparisons that sets \<open>grade\<close>
  and \<open>riskLevel\<close>, and the \<open>accuracy\<close> with its cap.
\<close>

definition rawScore :: "rat \<Rightarrow> rat \<Rightarrow> rat \<Rightarrow> rat \<Rightarrow> rat \<Rightarrow> rat" where
  "rawScore ageScore txScore balanceScore repaymentScore defiScore =
     BASE_SCORE
       + ageScore * WEIGHTS_age
       + txScore * WEIGHTS_transactions
       + balanceScore * WEIGHTS_balance
       + repaymentScore * WEIGHTS_repayment
       + defiScore * WEIGHTS_defi"

definition finalScore :: "rat \<Rightarrow> int" where
  "finalScore raw = max 0 (min 1000 (Math_round raw))"

definition grade_of :: "int \<Rightarrow> string \<times> risk_level" where
  "grade_of s =
     (if 850 \<le> s then (''A+'', Low)
      else if 800 \<le> s then (''A'', Low)
      else if 750 \<le> s then (''A-'', Low)
      else if 700 \<le> s then (''B+'', Medium)
      else if 650 \<le> s then (''B'', Medium)
      else if 500 \<le> s then (''C'', Medium)
      else if 300 \<le> s then (''D'', High)
      else (''F'', High))"

definition accuracy_of :: "number option \<Rightarrow> rat \<Rightarrow> number \<Rightarrow> int" where
  "accuracy_of daysOld txCount bal =
     min 99
       (75 + (if daysOld \<noteq> None then 10 else 0)
           + (if 0 < txCount then 10 else 0)
           + (if num_gt bal 0 then 5 else 0))"

text \<open>
  The part of \<open>calculate\<close> after the account age is known: the sub-scores, the weighted
  score, grade and risk, the accuracy and the report.
\<close>

definition calculate_report ::
  "string \<Rightarrow> number option \<Rightarrow> wallet_counters \<Rightarrow> number \<Rightarrow> delegation_response list
     \<Rightarrow> wallet_tx list \<Rightarrow> score_report" where
  "calculate_report address daysOld counters bal stakingInfo transactions =
     (let ageScore = scoreAge daysOld;
          txScore = scoreTransactions (Num (transaction_count counters));
          balanceScore = scoreBalance bal;
          repaymentScore = scoreRepayment transactions;
          defiScore = scoreDeFiExtras (Num (of_nat (length (unique_addresses counters))));
          final = finalScore (rawScore ageScore txScore balanceScore repaymentScore defiScore)
      in \<lparr>score = final,
          accuracy = accuracy_of daysOld (transaction_count counters) bal,
          grade = fst (grade_of final),
          riskLevel = snd (grade_of final),
          report_factors =
            \<lparr>transactionHistory = Math_round txScore,
             liquidityProvision = Math_round balanceScore,
             defiInteractions = Math_round repaymentScore,
             networkParticipation = Math_round (ageScore + defiScore)\<rparr>,
          walletAddress = address,
          rawData =
            \<lparr>transactionCount = transaction_count counters,
             totalBalance = bal,
             totalStaked =
               foldl (\<lambda>sum delegation.
                        num_add sum
                          (num_map (\<lambda>x. x / 1000000) (parseInt (amount (balance delegation)) None)))
                     (Num 0) stakingInfo,
             accountAgeDays = daysOld,
             defiTransactionCount =
               length (filter (\<lambda>tx. method_includes ''swap'' tx \<or> method_includes ''lend'' tx
                                    \<or> method_includes ''borrow'' tx) transactions),
             uniqueContractsInteracted = length (unique_addresses counters)\<rparr>\<rparr>)"

text \<open>
  \<open>daysOld\<close>: the whole days between the first transaction and now, \<open>null\<close> without a
  first transaction. \<open>calculate\<close> awaits the five fetchers together; the requests are
  listed fetcher by fetcher.
\<close>

definition daysOld_of :: "world \<Rightarrow> first_tx_info \<Rightarrow> number option" where
  "daysOld_of w firstTxInfo =
     (case fti_timestamp firstTxInfo of
        Some t \<Rightarrow> Some (num_map (\<lambda>ms. of_int \<lfloor>(now w - ms) / (1000 * 60 * 60 * 24)\<rfloor>) t)
      | None \<Rightarrow> None)"

definition calculate :: "world \<Rightarrow> string \<Rightarrow> score_report \<times> request list" where
  "calculate w address =
     (case fetchFirstTransactionInfo w address of (firstTxInfo, r1) \<Rightarrow>
      case fetchWalletCounters w address of (counters, r2) \<Rightarrow>
      case fetchWalletBalance w address of (bal, r3) \<Rightarrow>
      case fetchStakingInfo w address of (stakingInfo, r4) \<Rightarrow>
      case fetchWalletTransactions w address 500 of (transactions, r5) \<Rightarrow>
        (calculate_report address (daysOld_of w firstTxInfo) counters bal stakingInfo transactions,
         r1 @ r2 @ r3 @ r4 @ r5))"

text \<open>
  The exported entry point. The two errors it throws are the invalid address and the
  failure of the scoring itself; the model of \<open>calculate\<close> is total, so only the first
  one arises here.
\<close>

datatype error = InvalidAddressFormat | ScoringUnavailable

definition calculateCreditScore :: "world \<Rightarrow> string \<Rightarrow> (error + score_report) \<times> request list" where
  "calculateCreditScore w address =
     (if \<not> isValidSeiAddress address then (Inl InvalidAddressFormat, [])
      else (case calculate w address of (report, reqs) \<Rightarrow> (Inr report, reqs)))"

section \<open>The specification's rules\<close>

text \<open>
  The rules of the specification, written from its words: the threshold tables of the
  sub-scores, the aggregation formula, the repayment rule on the two ratios, and the
  accuracy heuristic. They are compared with the scorer below.
\<close>

definition spec_clamp :: "rat \<Rightarrow> rat \<Rightarrow> rat \<Rightarrow> rat" where
  "spec_clamp x lo hi = max lo (min hi x)"

definition spec_age :: "number option \<Rightarrow> rat" where
  "spec_age days =
     (case days of
        None \<Rightarrow> - 50
      | Some d \<Rightarrow> if num_gt d 730 then 100 else if num_gt d 365 then 60
                  else if num_gt d 90 then 20 else - 30)"

definition spec_transactions :: "rat \<Rightarrow> rat" where
  "spec_transactions n =
     (if 2000 < n then 100 else if 300 < n then 60 else if 50 < n then 20 else - 20)"

definition spec_balance :: "number \<Rightarrow> rat" where
  "spec_balance b =
     (if num_gt b 5000 then 100 else if num_gt b 500 then 60 else if num_gt b 50 then 20 else - 30)"

definition spec_diversity :: "nat \<Rightarrow> rat" where
  "spec_diversity n = (if 25 < n then 30 else if 10 < n then 10 else 0)"

definition spec_finalScore :: "rat \<Rightarrow> rat \<Rightarrow> rat \<Rightarrow> rat \<Rightarrow> rat \<Rightarrow> int" where
  "spec_finalScore age tx bal repayment diversity =
     Math_round
       (spec_clamp
          (500 + age * (15 / 100) + tx * (20 / 100) + bal * (25 / 100)
             + repayment * (30 / 100) + diversity * (10 / 100))
          0 1000)"

definition spec_method_count :: "string \<Rightarrow> wallet_tx list \<Rightarrow> nat" where
  "spec_method_count s transactions =
     length (filter (\<lambda>tx. case tx_method tx of
                            None \<Rightarrow> False
                          | Some m \<Rightarrow> includes_str (toLowerCase m) s) transactions)"

definition spec_accuracy :: "bool \<Rightarrow> bool \<Rightarrow> bool \<Rightarrow> int" where
  "spec_accuracy age_known has_transactions has_balance =
     min 99 (75 + (if age_known then 10 else 0) + (if has_transactions then 10 else 0)
               + (if has_balance then 5 else 0))"

definition spec_repayment_rule :: "rat \<Rightarrow> rat \<Rightarrow> rat" where
  "spec_repayment_rule repaymentRatio liquidationRatio =
     (if liquidationRatio = 0 \<and> 8 / 10 \<le> repaymentRatio then 100
      else if liquidationRatio < 1 / 10 \<and> 6 / 10 \<le> repaymentRatio then 60
      else if liquidationRatio < 25 / 100 then 0
      else max (- 150) (- 150 * liquidationRatio))"

section \<open>The scenarios of the specification\<close>

text \<open>
  Scenario A is the report for the default wallet facts, scenario B the report for 800
  days, 2500 transactions, a balance of 6000, 30 unique addresses, 20 borrows and 20
  repayments.
\<close>

definition borrow_tx :: wallet_tx where
  "borrow_tx = \<lparr>txhash = ''b'', height = 1, timestamp = [], tx_method = Some ''borrow'',
                tx_to = None, tx_from = None\<rparr>"

definition repay_tx :: wallet_tx where
  "repay_tx = \<lparr>txhash = ''r'', height = 1, timestamp = [], tx_method = Some ''repay'',
               tx_to = None, tx_from = None\<rparr>"

definition scenario_A :: score_report where
  "scenario_A =
     calculate_report [] None \<lparr>transaction_count = 0, unique_addresses = []\<rparr> (Num 0) [] []"

definition scenario_B :: score_report where
  "scenario_B =
     calculate_report [] (Some (Num 800))
       \<lparr>transaction_count = 2500, unique_addresses = replicate 30 []\<rparr> (Num 6000) []
       (replicate 20 borrow_tx @ replicate 20 repay_tx)"


section \<open>Address patterns and outcomes of the queries\<close>

text \<open>The address patterns in the words of the specification.\<close>

definition spec_bech32_pattern :: "string \<Rightarrow> bool" where
  "spec_bech32_pattern s =
     (\<exists>body. s = ''sei'' @ body \<and> 39 \<le> length body \<and> length body \<le> 59
             \<and> (\<forall>c\<in>set body. is_lower_alnum c))"

definition spec_evm_pattern :: "string \<Rightarrow> bool" where
  "spec_evm_pattern s =
     (\<exists>body. s = ''0x'' @ body \<and> length body = 40 \<and> (\<forall>c\<in>set body. is_hex c))"

text \<open>
  The transactions one search query delivers: none when the query fails. The EVM query
  fails when the request fails or the node answers with an error; the bank query fails or
  returns nothing when the request fails or no \<open>usei\<close> balance is listed.
\<close>

definition query_txs :: "world \<Rightarrow> nat \<Rightarrow> string \<Rightarrow> wallet_tx list" where
  "query_txs w limit query =
     (case tx_search w query limit of
        Json d \<Rightarrow> (case txs d of Some ts \<Rightarrow> ts | None \<Rightarrow> [])
      | _ \<Rightarrow> [])"

definition evm_fails :: "world \<Rightarrow> string \<Rightarrow> bool" where
  "evm_fails w a =
     (case evm_get_balance w a of Json d \<Rightarrow> evm_error d \<noteq> None | _ \<Rightarrow> True)"

definition native_fails_or_nothing :: "world \<Rightarrow> string \<Rightarrow> bool" where
  "native_fails_or_nothing w a =
     (case bank_balances w a of
        Json d \<Rightarrow> find (\<lambda>b. denom b = ''usei'') (balances d) = None
      | _ \<Rightarrow> True)"

section \<open>Concrete addresses and worlds\<close>

text \<open>
  Inputs for the examples: a native and an EVM address, a world in which two searches
  overlap and two fail, one in which every search lists a transaction twice, one in
  which every provider is down, and two with balances (\<open>0xde0b6b3a7640000\<close> wei is one
  token, \<open>1500000\<close> usei are one and a half).
\<close>

definition sei_address :: string where
  "sei_address = ''sei'' @ replicate 39 (CHR ''a'')"

definition tx_of :: "string \<Rightarrow> int \<Rightarrow> wallet_tx" where
  "tx_of h n = \<lparr>txhash = h, height = n, timestamp = [], tx_method = None,
               tx_to = None, tx_from = None\<rparr>"

definition overlap_world :: world where
  "overlap_world =
     \<lparr>explorer_transactions = (\<lambda>a l s. Failed),
      explorer_counters = (\<lambda>a. Failed),
      evm_get_balance = (\<lambda>a. Failed),
      bank_balances = (\<lambda>a. Failed),
      staking_delegations = (\<lambda>a. Failed),
      tx_search = (\<lambda>q l. if take 1 q = ''m'' then Json \<lparr>txs = Some [tx_of ''H1'' 5, tx_of ''H2'' 9]\<rparr>
                           else if take 1 q = ''t'' then Failed
                           else Json \<lparr>txs = Some [tx_of ''H2'' 9, tx_of ''H3'' 7]\<rparr>),
      date_time = (\<lambda>s. NaN),
      now = 0\<rparr>"

definition dup_tx :: wallet_tx where
  "dup_tx = \<lparr>txhash = ''AB12'', height = 7, timestamp = [], tx_method = None,
             tx_to = None, tx_from = None\<rparr>"

definition dup_world :: world where
  "dup_world =
     \<lparr>explorer_transactions = (\<lambda>a l s. Failed),
      explorer_counters = (\<lambda>a. Failed),
      evm_get_balance = (\<lambda>a. Failed),
      bank_balances = (\<lambda>a. Failed),
      staking_delegations = (\<lambda>a. Failed),
      tx_search = (\<lambda>q l. Json \<lparr>txs = Some [dup_tx, dup_tx]\<rparr>),
      date_time = (\<lambda>s. NaN),
      now = 0\<rparr>"

definition evm_address :: string where
  "evm_address = ''0x'' @ replicate 40 (CHR ''a'')"

definition down_world :: world where
  "down_world =
     \<lparr>explorer_transactions = (\<lambda>a l s. Failed),
      explorer_counters = (\<lambda>a. Failed),
      evm_get_balance = (\<lambda>a. NotOk),
      bank_balances = (\<lambda>a. Failed),
      staking_delegations = (\<lambda>a. Failed),
      tx_search = (\<lambda>q l. Failed),
      date_time = (\<lambda>s. NaN),
      now = 0\<rparr>"

definition rich_world :: world where
  "rich_world =
     \<lparr>explorer_transactions = (\<lambda>a l s. Failed),
      explorer_counters = (\<lambda>a. Failed),
      evm_get_balance = (\<lambda>a. Json \<lparr>evm_error = None, evm_result = ''0xde0b6b3a7640000''\<rparr>),
      bank_balances = (\<lambda>a. Json \<lparr>balances = [\<lparr>denom = ''usei'', amount = ''1500000''\<rparr>]\<rparr>),
      staking_delegations = (\<lambda>a. Failed),
      tx_search = (\<lambda>q l. Failed),
      date_time = (\<lambda>s. NaN),
      now = 0\<rparr>"

definition zero_evm_world :: world where
  "zero_evm_world =
     \<lparr>explorer_transactions = (\<lambda>a l s. Failed),
      explorer_counters = (\<lambda>a. Failed),
      evm_get_balance = (\<lambda>a. Json \<lparr>evm_error = None, evm_result = ''0x0''\<rparr>),
      bank_balances = (\<lambda>a. Json \<lparr>balances = [\<lparr>denom = ''usei'', amount = ''1500000''\<rparr>]\<rparr>),
      staking_delegations = (\<lambda>a. Failed),
      tx_search = (\<lambda>q l. Failed),
      date_time = (\<lambda>s. NaN),
      now = 0\<rparr>"

section \<open>Rounding and the clamp\<close>

lemma Math_round_of_int: "Math_round (of_int n) = n"
  unfolding Math_round_def by linarith

lemma Math_round_mono: "x \<le> y \<Longrightarrow> Math_round x \<le> Math_round y"
  unfolding Math_round_def by (simp add: floor_mono)

lemma Math_round_ge: "of_int lo \<le> x \<Longrightarrow> lo \<le> Math_round x"
  using Math_round_mono [of "of_int lo" x] by (simp add: Math_round_of_int)

lemma Math_round_le: "x \<le> of_int hi \<Longrightarrow> Math_round x \<le> hi"
  using Math_round_mono [of x "of_int hi"] by (simp add: Math_round_of_int)

lemma finalScore_round_clamp: "finalScore raw = Math_round (spec_clamp raw 0 1000)"
proof -
  consider "raw < 0" | "0 \<le> raw" "raw \<le> 1000" | "1000 < raw" by linarith
  then show ?thesis
  proof cases
    case 1
    then have "Math_round raw \<le> 0" using Math_round_le [of raw 0] by simp
    moreover have "Math_round 0 = 0" using Math_round_of_int [of 0] by simp
    ultimately show ?thesis using 1 by (simp add: finalScore_def spec_clamp_def)
  next
    case 2
    then have "0 \<le> Math_round raw" "Math_round raw \<le> 1000"
      using Math_round_ge [of 0 raw] Math_round_le [of raw 1000] by simp_all
    then show ?thesis using 2 by (simp add: finalScore_def spec_clamp_def)
  next
    case 3
    then have "1000 \<le> Math_round raw" using Math_round_ge [of 1000 raw] by simp
    moreover have "Math_round 1000 = 1000" using Math_round_of_int [of 1000] by simp
    ultimately show ?thesis using 3 by (simp add: finalScore_def spec_clamp_def)
  qed
qed

lemma scoreAge_range: "- 50 \<le> scoreAge d \<and> scoreAge d \<le> 100"
  by (simp add: scoreAge_def split: option.split)

lemma scoreTransactions_range: "- 20 \<le> scoreTransactions n \<and> scoreTransactions n \<le> 100"
  by (simp add: scoreTransactions_def)

lemma scoreBalance_range: "- 30 \<le> scoreBalance b \<and> scoreBalance b \<le> 100"
  by (simp add: scoreBalance_def)

lemma scoreDeFiExtras_range: "0 \<le> scoreDeFiExtras u \<and> scoreDeFiExtras u \<le> 30"
  by (simp add: scoreDeFiExtras_def)

lemma spec_repayment_rule_range:
  assumes "0 \<le> l"
  shows "- 150 \<le> spec_repayment_rule r l \<and> spec_repayment_rule r l \<le> 100"
  using assms unfolding spec_repayment_rule_def by auto

lemma spec_repayment_rule_code:
  "(if L = 0 \<and> 8 / 10 \<le> R then 100
    else if L < 1 / 10 \<and> 6 / 10 \<le> R then 60
    else if L < 25 / 100 then 0
    else Math_max (- 150) (- 150 * L)) = spec_repayment_rule R L"
  by (simp add: spec_repayment_rule_def Math_max_def max_def)

lemma scoreRepayment_unfold:
  "scoreRepayment ts =
     (if length (filter (method_includes ''borrow'') (defiTxs ts)) = 0 then 0
      else spec_repayment_rule
        (of_nat (length (filter (method_includes ''repay'') (defiTxs ts)))
           / of_nat (length (filter (method_includes ''borrow'') (defiTxs ts))))
        (of_nat (length (filter (method_includes ''liquidat'') (defiTxs ts)))
           / of_nat (length (filter (method_includes ''borrow'') (defiTxs ts)))))"
  unfolding scoreRepayment_def Let_def
  by (simp only: spec_repayment_rule_code)

lemma scoreRepayment_range: "- 150 \<le> scoreRepayment ts \<and> scoreRepayment ts \<le> 100"
proof (cases "length (filter (method_includes ''borrow'') (defiTxs ts)) = 0")
  case True
  then show ?thesis by (simp add: scoreRepayment_unfold)
next
  case False
  define l :: rat where "l = of_nat (length (filter (method_includes ''liquidat'') (defiTxs ts)))
           / of_nat (length (filter (method_includes ''borrow'') (defiTxs ts)))"
  define r :: rat where "r = of_nat (length (filter (method_includes ''repay'') (defiTxs ts)))
           / of_nat (length (filter (method_includes ''borrow'') (defiTxs ts)))"
  have "0 \<le> l" unfolding l_def by simp
  then have "- 150 \<le> spec_repayment_rule r l \<and> spec_repayment_rule r l \<le> 100"
    by (rule spec_repayment_rule_range)
  moreover have "scoreRepayment ts = spec_repayment_rule r l"
    using False unfolding l_def r_def by (simp only: scoreRepayment_unfold if_False)
  ultimately show ?thesis by simp
qed

lemma rawScore_range:
  "436 \<le> rawScore (scoreAge d) (scoreTransactions n) (scoreBalance b) (scoreRepayment ts) (scoreDeFiExtras u)
   \<and> rawScore (scoreAge d) (scoreTransactions n) (scoreBalance b) (scoreRepayment ts) (scoreDeFiExtras u) \<le> 593"
  using scoreAge_range [of d] scoreTransactions_range [of n] scoreBalance_range [of b]
    scoreRepayment_range [of ts] scoreDeFiExtras_range [of u]
  unfolding rawScore_def BASE_SCORE_def WEIGHTS_age_def WEIGHTS_transactions_def
    WEIGHTS_balance_def WEIGHTS_repayment_def WEIGHTS_defi_def
  by linarith


lemma method_includes_defi:
  assumes "method_includes s tx" and "s = ''borrow'' \<or> s = ''repay'' \<or> s = ''liquidat''"
  shows "includes_str (method_or_empty tx) ''borrow'' \<or> includes_str (method_or_empty tx) ''repay''
         \<or> includes_str (method_or_empty tx) ''liquidat'' \<or> includes_str (method_or_empty tx) ''lend''"
  using assms by (auto simp: method_includes_def method_or_empty_def split: option.splits)

lemma filter_defiTxs:
  assumes "s = ''borrow'' \<or> s = ''repay'' \<or> s = ''liquidat''"
  shows "filter (method_includes s) (defiTxs ts) = filter (method_includes s) ts"
proof -
  have "filter (method_includes s) (defiTxs ts)
        = filter (\<lambda>tx. (includes_str (method_or_empty tx) ''borrow'' \<or> includes_str (method_or_empty tx) ''repay''
         \<or> includes_str (method_or_empty tx) ''liquidat'' \<or> includes_str (method_or_empty tx) ''lend'')
         \<and> method_includes s tx) ts"
    unfolding defiTxs_def by (simp only: filter_filter)
  also have "\<dots> = filter (method_includes s) ts"
    by (rule filter_cong) (use method_includes_defi [OF _ assms] in blast)+
  finally show ?thesis .
qed

lemma method_count: "length (filter (method_includes s) ts) = spec_method_count s ts"
  unfolding spec_method_count_def method_includes_def ..

lemma scoreRepayment_counts:
  "scoreRepayment ts =
     (if spec_method_count ''borrow'' ts = 0 then 0
      else spec_repayment_rule
        (of_nat (spec_method_count ''repay'' ts) / of_nat (spec_method_count ''borrow'' ts))
        (of_nat (spec_method_count ''liquidat'' ts) / of_nat (spec_method_count ''borrow'' ts)))"
  by (simp only: scoreRepayment_unfold filter_defiTxs method_count simp_thms)

lemma sub_scores_spec:
  "scoreAge d = spec_age d" "scoreTransactions (Num n) = spec_transactions n"
  "scoreBalance b = spec_balance b" "scoreDeFiExtras (Num (of_nat k)) = spec_diversity k"
  by (simp_all add: scoreAge_def spec_age_def scoreTransactions_def spec_transactions_def
      scoreBalance_def spec_balance_def scoreDeFiExtras_def spec_diversity_def)

lemma score_calculate_report:
  "score (calculate_report a d c b st ts) =
     finalScore (rawScore (scoreAge d) (scoreTransactions (Num (transaction_count c))) (scoreBalance b)
        (scoreRepayment ts) (scoreDeFiExtras (Num (of_nat (length (unique_addresses c))))))"
  by (simp add: calculate_report_def Let_def)

lemma grade_calculate_report:
  "grade (calculate_report a d c b st ts) = fst (grade_of (score (calculate_report a d c b st ts)))"
  "riskLevel (calculate_report a d c b st ts) = snd (grade_of (score (calculate_report a d c b st ts)))"
  by (simp_all add: calculate_report_def Let_def)

lemma accuracy_calculate_report:
  "accuracy (calculate_report a d c b st ts) = accuracy_of d (transaction_count c) b"
  by (simp add: calculate_report_def Let_def)

lemma finalScore_in_range: "0 \<le> finalScore raw \<and> finalScore raw \<le> 1000"
  by (simp add: finalScore_def)

lemma finalScore_of_int: "0 \<le> n \<Longrightarrow> n \<le> 1000 \<Longrightarrow> finalScore (of_int n) = n"
  by (simp add: finalScore_def Math_round_of_int)

lemma grade_of_C: "500 \<le> s \<Longrightarrow> s < 650 \<Longrightarrow> grade_of s = (''C'', Medium)"
  by (simp add: grade_of_def)

lemma grade_of_D: "300 \<le> s \<Longrightarrow> s < 500 \<Longrightarrow> grade_of s = (''D'', High)"
  by (simp add: grade_of_def)

lemma score_range_436_593:
  "436 \<le> score (calculate_report a d c b st ts) \<and> score (calculate_report a d c b st ts) \<le> 593
   \<and> score (calculate_report a d c b st ts) =
       Math_round (rawScore (scoreAge d) (scoreTransactions (Num (transaction_count c))) (scoreBalance b)
        (scoreRepayment ts) (scoreDeFiExtras (Num (of_nat (length (unique_addresses c))))))"
proof -
  define raw where "raw = rawScore (scoreAge d) (scoreTransactions (Num (transaction_count c)))
     (scoreBalance b) (scoreRepayment ts) (scoreDeFiExtras (Num (of_nat (length (unique_addresses c)))))"
  have r: "436 \<le> raw" "raw \<le> 593"
    unfolding raw_def using rawScore_range by blast+
  have lo: "436 \<le> Math_round raw" using r(1) Math_round_ge [of 436 raw] by simp
  have hi: "Math_round raw \<le> 593" using r(2) Math_round_le [of raw 593] by simp
  have "finalScore raw = Math_round raw" using lo hi by (simp add: finalScore_def)
  moreover have "score (calculate_report a d c b st ts) = finalScore raw"
    unfolding raw_def by (rule score_calculate_report)
  ultimately show ?thesis using lo hi unfolding raw_def by simp
qed

lemma fst_calculate:
  "fst (calculate w a) =
     calculate_report a (daysOld_of w (fst (fetchFirstTransactionInfo w a)))
       (fst (fetchWalletCounters w a)) (fst (fetchWalletBalance w a)) (fst (fetchStakingInfo w a))
       (fst (fetchWalletTransactions w a 500))"
  by (simp add: calculate_def split: prod.splits)

lemma scoreRepayment_Nil: "scoreRepayment [] = 0"
  by (simp add: scoreRepayment_def defiTxs_def)

lemma score_defaults:
  "score (calculate_report a None \<lparr>transaction_count = 0, unique_addresses = []\<rparr> (Num 0) st []) = 481"
proof -
  have raw: "rawScore (scoreAge None) (scoreTransactions (Num 0)) (scoreBalance (Num 0)) 0
          (scoreDeFiExtras (Num 0)) = of_int 481"
    by (simp add: rawScore_def scoreAge_def scoreTransactions_def scoreBalance_def
        scoreDeFiExtras_def BASE_SCORE_def WEIGHTS_age_def WEIGHTS_transactions_def
        WEIGHTS_balance_def WEIGHTS_repayment_def WEIGHTS_defi_def)
  have "score (calculate_report a None \<lparr>transaction_count = 0, unique_addresses = []\<rparr> (Num 0) st [])
        = finalScore (rawScore (scoreAge None) (scoreTransactions (Num 0)) (scoreBalance (Num 0)) 0
          (scoreDeFiExtras (Num 0)))"
    by (simp add: score_calculate_report scoreRepayment_Nil)
  also have "\<dots> = finalScore (of_int 481)"
    by (simp only: raw)
  also have "\<dots> = 481"
    by (rule finalScore_of_int) simp_all
  finally show ?thesis .
qed

lemma scoreRepayment_20_20_0:
  assumes "spec_method_count ''borrow'' ts = 20" and "spec_method_count ''repay'' ts = 20"
    and "spec_method_count ''liquidat'' ts = 0"
  shows "scoreRepayment ts = 100"
  by (simp add: scoreRepayment_counts assms spec_repayment_rule_def)

lemma score_scenario_B:
  assumes "spec_method_count ''borrow'' ts = 20" and "spec_method_count ''repay'' ts = 20"
    and "spec_method_count ''liquidat'' ts = 0" and "length us = 30"
  shows "score (calculate_report a (Some (Num 800)) \<lparr>transaction_count = 2500, unique_addresses = us\<rparr>
           (Num 6000) st ts) = 593"
proof -
  have raw: "rawScore 100 100 100 100 30 = of_int 593"
    by (simp add: rawScore_def BASE_SCORE_def WEIGHTS_age_def WEIGHTS_transactions_def
        WEIGHTS_balance_def WEIGHTS_repayment_def WEIGHTS_defi_def)
  have "score (calculate_report a (Some (Num 800)) \<lparr>transaction_count = 2500, unique_addresses = us\<rparr>
           (Num 6000) st ts) = finalScore (rawScore 100 100 100 100 30)"
    using assms(4)
    by (simp add: score_calculate_report scoreRepayment_20_20_0 [OF assms(1,2,3)] scoreAge_def
        scoreTransactions_def scoreBalance_def scoreDeFiExtras_def)
  also have "\<dots> = finalScore (of_int 593)"
    by (simp only: raw)
  also have "\<dots> = 593"
    by (rule finalScore_of_int) simp_all
  finally show ?thesis .
qed

lemma method_includes_borrow_tx:
  "method_includes ''borrow'' borrow_tx" "\<not> method_includes ''repay'' borrow_tx"
  "\<not> method_includes ''liquidat'' borrow_tx"
  unfolding method_includes_def borrow_tx_def by code_simp+

lemma method_includes_repay_tx:
  "\<not> method_includes ''borrow'' repay_tx" "method_includes ''repay'' repay_tx"
  "\<not> method_includes ''liquidat'' repay_tx"
  unfolding method_includes_def repay_tx_def by code_simp+

lemma scenario_B_counts:
  "spec_method_count ''borrow'' (replicate 20 borrow_tx @ replicate 20 repay_tx) = 20"
  "spec_method_count ''repay'' (replicate 20 borrow_tx @ replicate 20 repay_tx) = 20"
  "spec_method_count ''liquidat'' (replicate 20 borrow_tx @ replicate 20 repay_tx) = 0"
  by (simp_all add: method_count [symmetric] method_includes_borrow_tx method_includes_repay_tx)

section \<open>The final score\<close>

text \<open>
  Claim C1. For all wallet facts (account age in days or null, transaction count, balance,
  transaction list, number of unique addresses) the final score of the scorer is
  \<open>round (clamp (500 + age * 0.15 + tx * 0.20 + balance * 0.25 + repayment * 0.30
  + diversity * 0.10) 0 1000)\<close>, the age, transaction, balance and diversity sub-scores
  being the threshold tables of the specification; the weights add up to 1 and the base
  is 500. The scorer clamps the rounded score, the formula rounds the clamped one: they
  agree.
\<close>

theorem C1_final_score_formula:
  "score (calculate_report a days c bal st ts) =
     spec_finalScore (spec_age days) (spec_transactions (transaction_count c)) (spec_balance bal)
       (scoreRepayment ts) (spec_diversity (length (unique_addresses c)))
   \<and> finalScore raw = Math_round (spec_clamp raw 0 1000)
   \<and> WEIGHTS_age + WEIGHTS_transactions + WEIGHTS_balance + WEIGHTS_repayment + WEIGHTS_defi = 1
   \<and> BASE_SCORE = 500"
proof -
  have "score (calculate_report a days c bal st ts) =
     Math_round (spec_clamp (rawScore (spec_age days) (spec_transactions (transaction_count c))
        (spec_balance bal) (scoreRepayment ts) (spec_diversity (length (unique_addresses c)))) 0 1000)"
    by (simp only: score_calculate_report sub_scores_spec finalScore_round_clamp)
  then have "score (calculate_report a days c bal st ts) =
     spec_finalScore (spec_age days) (spec_transactions (transaction_count c)) (spec_balance bal)
       (scoreRepayment ts) (spec_diversity (length (unique_addresses c)))"
    by (simp add: spec_finalScore_def rawScore_def BASE_SCORE_def WEIGHTS_age_def
        WEIGHTS_transactions_def WEIGHTS_balance_def WEIGHTS_repayment_def WEIGHTS_defi_def)
  moreover have "WEIGHTS_age + WEIGHTS_transactions + WEIGHTS_balance + WEIGHTS_repayment + WEIGHTS_defi = 1"
    by (simp add: WEIGHTS_age_def WEIGHTS_transactions_def WEIGHTS_balance_def
        WEIGHTS_repayment_def WEIGHTS_defi_def)
  ultimately show ?thesis by (simp add: BASE_SCORE_def finalScore_round_clamp)
qed

section \<open>The repayment sub-score\<close>

text \<open>
  Claim C5. With the numbers of transactions whose lower-cased method name contains
  \<open>borrow\<close>, \<open>repay\<close> and \<open>liquidat\<close>: no borrow gives the sub-score 0 whatever the
  other two numbers are; otherwise, with the ratios of repayments and of liquidations to
  borrows, the sub-score is 100 when the liquidation ratio is 0 and the repayment ratio is
  at least 0.8, else 60 when the liquidation ratio is below 0.1 and the repayment ratio at
  least 0.6, else 0 when the liquidation ratio is below 0.25, else
  \<open>max (-150) (-150 * liquidation ratio)\<close>.
\<close>

theorem C5_repayment_rule:
  "scoreRepayment ts =
     (if spec_method_count ''borrow'' ts = 0 then 0
      else if rat_of_nat (spec_method_count ''liquidat'' ts) / rat_of_nat (spec_method_count ''borrow'' ts) = 0
            \<and> 8 / 10 \<le> rat_of_nat (spec_method_count ''repay'' ts) / rat_of_nat (spec_method_count ''borrow'' ts)
           then 100
      else if rat_of_nat (spec_method_count ''liquidat'' ts) / rat_of_nat (spec_method_count ''borrow'' ts) < 1 / 10
            \<and> 6 / 10 \<le> rat_of_nat (spec_method_count ''repay'' ts) / rat_of_nat (spec_method_count ''borrow'' ts)
           then 60
      else if rat_of_nat (spec_method_count ''liquidat'' ts) / rat_of_nat (spec_method_count ''borrow'' ts) < 25 / 100
           then 0
      else max (- 150)
             (- 150 * (rat_of_nat (spec_method_count ''liquidat'' ts) / rat_of_nat (spec_method_count ''borrow'' ts))))"
proof (cases "spec_method_count ''borrow'' ts = 0")
  case True
  then show ?thesis
    by (simp add: scoreRepayment_counts)
next
  case False
  then have "scoreRepayment ts =
      spec_repayment_rule
        (of_nat (spec_method_count ''repay'' ts) / of_nat (spec_method_count ''borrow'' ts))
        (of_nat (spec_method_count ''liquidat'' ts) / of_nat (spec_method_count ''borrow'' ts))"
    by (simp only: scoreRepayment_counts if_False)
  with False show ?thesis
    by (simp only: spec_repayment_rule_def if_False)
qed


section \<open>The range of the score\<close>

text \<open>
  Claim C3. For all wallet facts the weighted raw score is at least
  \<open>500 - 7.5 - 4 - 7.5 - 45 + 0 = 436\<close> and at most \<open>500 + 15 + 20 + 25 + 30 + 3 = 593\<close>,
  so the final score lies between 436 and 593 and is the rounded raw score: the clamp
  bounds 0 and 1000 are never reached. The grade is always C or D and the risk medium or
  high; the risk is never low and the grades A+, A, A-, B+, B and F cannot occur.
\<close>

theorem C3_score_between_436_and_593:
  "436 \<le> rawScore (scoreAge d) (scoreTransactions (Num (transaction_count c))) (scoreBalance b)
        (scoreRepayment ts) (scoreDeFiExtras (Num (of_nat (length (unique_addresses c)))))
   \<and> rawScore (scoreAge d) (scoreTransactions (Num (transaction_count c))) (scoreBalance b)
        (scoreRepayment ts) (scoreDeFiExtras (Num (of_nat (length (unique_addresses c))))) \<le> 593
   \<and> 436 \<le> score (calculate_report a d c b st ts)
   \<and> score (calculate_report a d c b st ts) \<le> 593
   \<and> score (calculate_report a d c b st ts) =
       Math_round (rawScore (scoreAge d) (scoreTransactions (Num (transaction_count c))) (scoreBalance b)
        (scoreRepayment ts) (scoreDeFiExtras (Num (of_nat (length (unique_addresses c))))))
   \<and> (grade (calculate_report a d c b st ts) = ''C'' \<or> grade (calculate_report a d c b st ts) = ''D'')
   \<and> (riskLevel (calculate_report a d c b st ts) = Medium
        \<or> riskLevel (calculate_report a d c b st ts) = High)
   \<and> riskLevel (calculate_report a d c b st ts) \<noteq> Low
   \<and> grade (calculate_report a d c b st ts) \<notin> {''A+'', ''A'', ''A-'', ''B+'', ''B'', ''F''}"
proof -
  define s where "s = score (calculate_report a d c b st ts)"
  have s: "436 \<le> s" "s \<le> 593"
    unfolding s_def using score_range_436_593 by blast+
  have g: "grade_of s = (''C'', Medium) \<or> grade_of s = (''D'', High)"
  proof (cases "500 \<le> s")
    case True
    then show ?thesis using s grade_of_C [of s] by simp
  next
    case False
    then show ?thesis using s grade_of_D [of s] by simp
  qed
  have gr: "grade (calculate_report a d c b st ts) = fst (grade_of s)"
    and ri: "riskLevel (calculate_report a d c b st ts) = snd (grade_of s)"
    unfolding s_def by (rule grade_calculate_report)+
  have "(grade (calculate_report a d c b st ts) = ''C'' \<or> grade (calculate_report a d c b st ts) = ''D'')
   \<and> (riskLevel (calculate_report a d c b st ts) = Medium
        \<or> riskLevel (calculate_report a d c b st ts) = High)
   \<and> riskLevel (calculate_report a d c b st ts) \<noteq> Low
   \<and> grade (calculate_report a d c b st ts) \<notin> {''A+'', ''A'', ''A-'', ''B+'', ''B'', ''F''}"
    using g unfolding gr ri by auto
  then show ?thesis using rawScore_range score_range_436_593 by blast
qed

text \<open>
  Claim C6. However extreme the sub-scores, the final score is an integer between 0 and
  1000: for every raw score, for every report built from wallet facts, and for every
  report \<open>calculate\<close> returns.
\<close>

theorem C6_score_clamped:
  "0 \<le> finalScore raw \<and> finalScore raw \<le> 1000
   \<and> 0 \<le> score (calculate_report a d c b st ts) \<and> score (calculate_report a d c b st ts) \<le> 1000
   \<and> 0 \<le> score (fst (calculate w a)) \<and> score (fst (calculate w a)) \<le> 1000"
proof -
  show ?thesis
    using finalScore_in_range by (simp add: fst_calculate score_calculate_report)
qed

section \<open>The accuracy\<close>

text \<open>
  Claim C10. The accuracy of the report is \<open>min 99 (75 + 10 if the age is known + 10 if the
  transaction count is positive + 5 if the balance is positive)\<close>; it lies between 75 and
  99, and when the three bonuses apply the sum is 100 and the accuracy is 99.
\<close>

theorem C10_accuracy:
  "accuracy (calculate_report a d c b st ts) =
     spec_accuracy (d \<noteq> None) (0 < transaction_count c) (num_gt b 0)
   \<and> 75 \<le> accuracy (calculate_report a d c b st ts)
   \<and> accuracy (calculate_report a d c b st ts) \<le> 99
   \<and> (d \<noteq> None \<and> 0 < transaction_count c \<and> num_gt b 0 \<longrightarrow>
        75 + 10 + 10 + 5 = (100::int) \<and> accuracy (calculate_report a d c b st ts) = 99)"
proof -
  have eq: "accuracy (calculate_report a d c b st ts) =
      spec_accuracy (d \<noteq> None) (0 < transaction_count c) (num_gt b 0)"
    by (simp add: accuracy_calculate_report accuracy_of_def spec_accuracy_def)
  have range: "75 \<le> spec_accuracy p q r \<and> spec_accuracy p q r \<le> 99" for p q r
    by (simp add: spec_accuracy_def)
  have cap: "spec_accuracy True True True = 99"
    by (simp add: spec_accuracy_def)
  show ?thesis
    using range [of "d \<noteq> None" "0 < transaction_count c" "num_gt b 0"] cap
    unfolding eq by auto
qed

theorem C10_accuracy_witness:
  "Some (Num 800) \<noteq> None
   \<and> 0 < transaction_count \<lparr>transaction_count = 2500, unique_addresses = []\<rparr>
   \<and> num_gt (Num 6000) 0
   \<and> accuracy (calculate_report [] (Some (Num 800)) \<lparr>transaction_count = 2500, unique_addresses = []\<rparr>
      (Num 6000) [] []) = 99"
  using C10_accuracy [of "[]" "Some (Num 800)" "\<lparr>transaction_count = 2500, unique_addresses = []\<rparr>"
      "Num 6000" "[]" "[]"]
  by simp

section \<open>The scenarios\<close>

text \<open>
  Claim C2, as amended. For the default wallet facts (no first transaction, transaction count
  0, balance 0, no transactions, no unique addresses) the sub-scores are \<open>-50\<close>,
  \<open>-20\<close>, \<open>-30\<close>, 0 and 0, so the score is \<open>500 - 7.5 - 4 - 7.5 = 481\<close>, the grade is
  D, the risk is high and the accuracy is 75.
\<close>

theorem C2_defaults_score_481:
  "score (calculate_report a None \<lparr>transaction_count = 0, unique_addresses = []\<rparr> (Num 0) st []) = 481
   \<and> grade (calculate_report a None \<lparr>transaction_count = 0, unique_addresses = []\<rparr> (Num 0) st []) = ''D''
   \<and> riskLevel (calculate_report a None \<lparr>transaction_count = 0, unique_addresses = []\<rparr> (Num 0) st []) = High
   \<and> accuracy (calculate_report a None \<lparr>transaction_count = 0, unique_addresses = []\<rparr> (Num 0) st []) = 75"
  by (simp add: grade_calculate_report score_defaults grade_of_D accuracy_calculate_report
      accuracy_of_def)

text \<open>
  The claim as the specification states it (score 500, grade C, risk medium) fails on the
  default wallet facts.
\<close>

theorem C2_defaults_counterexample:
  "\<not> (score scenario_A = 500 \<and> grade scenario_A = ''C'' \<and> riskLevel scenario_A = Medium
      \<and> accuracy scenario_A = 75)"
  by (simp add: scenario_A_def score_defaults)


text \<open>
  Claim C4, as amended. For an age of 800 days, 2500 transactions, a balance of 6000,
  30 unique addresses and a transaction list with 20 borrows, 20 repayments and no
  liquidation, the sub-scores are 100, 100, 100, 100 and 30, the raw score is
  \<open>500 + 15 + 20 + 25 + 30 + 3 = 593\<close>, the final score is 593, and by the grade mapping
  the grade is C and the risk medium.
\<close>

theorem C4_scenario_B_grade_C:
  assumes "spec_method_count ''borrow'' ts = 20" and "spec_method_count ''repay'' ts = 20"
    and "spec_method_count ''liquidat'' ts = 0" and "length us = 30"
  shows "scoreAge (Some (Num 800)) = 100 \<and> scoreTransactions (Num 2500) = 100
    \<and> scoreBalance (Num 6000) = 100 \<and> scoreRepayment ts = 100
    \<and> scoreDeFiExtras (Num (of_nat (length us))) = 30
    \<and> rawScore 100 100 100 100 30 = 500 + 15 + 20 + 25 + 30 + 3
    \<and> rawScore 100 100 100 100 30 = 593
    \<and> score (calculate_report a (Some (Num 800)) \<lparr>transaction_count = 2500, unique_addresses = us\<rparr>
           (Num 6000) st ts) = 593
    \<and> grade (calculate_report a (Some (Num 800)) \<lparr>transaction_count = 2500, unique_addresses = us\<rparr>
           (Num 6000) st ts) = ''C''
    \<and> riskLevel (calculate_report a (Some (Num 800)) \<lparr>transaction_count = 2500, unique_addresses = us\<rparr>
           (Num 6000) st ts) = Medium"
proof -
  have "rawScore 100 100 100 100 30 = 593"
    by (simp add: rawScore_def BASE_SCORE_def WEIGHTS_age_def WEIGHTS_transactions_def
        WEIGHTS_balance_def WEIGHTS_repayment_def WEIGHTS_defi_def)
  moreover have "grade_of 593 = (''C'', Medium)"
    by (rule grade_of_C) simp_all
  ultimately show ?thesis
    using assms(4)
    by (simp add: grade_calculate_report score_scenario_B [OF assms] scoreRepayment_20_20_0 [OF assms(1,2,3)]
        scoreAge_def scoreTransactions_def scoreBalance_def scoreDeFiExtras_def)
qed

theorem C4_scenario_B_witness:
  "spec_method_count ''borrow'' (replicate 20 borrow_tx @ replicate 20 repay_tx) = 20
   \<and> spec_method_count ''repay'' (replicate 20 borrow_tx @ replicate 20 repay_tx) = 20
   \<and> spec_method_count ''liquidat'' (replicate 20 borrow_tx @ replicate 20 repay_tx) = 0
   \<and> length (replicate 30 ([] :: string)) = 30
   \<and> score scenario_B = 593 \<and> grade scenario_B = ''C'' \<and> riskLevel scenario_B = Medium"
  using C4_scenario_B_grade_C [OF scenario_B_counts, of "replicate 30 []" "[]" "[]"]
  by (simp add: scenario_B_counts scenario_B_def)

text \<open>
  The grade of the second scenario is not in the band A-, A, A+ the specification
  expects.
\<close>

theorem C4_scenario_B_counterexample:
  "\<not> (scoreRepayment (replicate 20 borrow_tx @ replicate 20 repay_tx) = 100
      \<and> rawScore 100 100 100 100 30 = 593
      \<and> (grade scenario_B = ''A-'' \<or> grade scenario_B = ''A'' \<or> grade scenario_B = ''A+''))"
proof -
  have "score scenario_B = 593"
    unfolding scenario_B_def by (rule score_scenario_B [OF scenario_B_counts]) simp
  moreover have "grade_of 593 = (''C'', Medium)"
    by (rule grade_of_C) simp_all
  ultimately have "grade scenario_B = ''C''"
    by (simp add: scenario_B_def grade_calculate_report)
  then show ?thesis by simp
qed


section \<open>Address validation and the entry point\<close>

lemma bech32Regex_pattern: "bech32Regex s = spec_bech32_pattern s"
proof
  assume r: "bech32Regex s"
  then have "s = ''sei'' @ drop 3 s"
    unfolding bech32Regex_def by (metis append_take_drop_id)
  with r show "spec_bech32_pattern s"
    unfolding spec_bech32_pattern_def bech32Regex_def list_all_iff by blast
next
  assume "spec_bech32_pattern s"
  then show "bech32Regex s"
    unfolding spec_bech32_pattern_def bech32Regex_def list_all_iff by auto
qed

lemma evmRegex_pattern: "evmRegex s = spec_evm_pattern s"
proof
  assume r: "evmRegex s"
  then have "s = ''0x'' @ drop 2 s"
    unfolding evmRegex_def by (metis append_take_drop_id)
  with r show "spec_evm_pattern s"
    unfolding spec_evm_pattern_def evmRegex_def list_all_iff by blast
next
  assume "spec_evm_pattern s"
  then show "evmRegex s"
    unfolding spec_evm_pattern_def evmRegex_def list_all_iff by auto
qed

lemma snd_fetchFirstTransactionInfo:
  "snd (fetchFirstTransactionInfo w a) = [GetExplorerTransactions a 1 (Some ''asc'')]"
  by (simp add: fetchFirstTransactionInfo_def)

lemma snd_calculate_append:
  "snd (calculate w a) =
     snd (fetchFirstTransactionInfo w a) @ snd (fetchWalletCounters w a)
       @ snd (fetchWalletBalance w a) @ snd (fetchStakingInfo w a)
       @ snd (fetchWalletTransactions w a 500)"
  by (simp add: calculate_def split: prod.splits)

lemma snd_calculate: "snd (calculate w a) \<noteq> []"
  by (simp add: snd_calculate_append snd_fetchFirstTransactionInfo)

lemma sei_address_valid: "bech32Regex sei_address"
  by code_simp

lemma abc_invalid: "\<not> bech32Regex ''abc'' \<and> \<not> evmRegex ''abc''"
  by code_simp

text \<open>
  Claim C7. An address that matches neither the Bech32 pattern (\<open>sei\<close> followed by 39 to 59
  lower-case alphanumeric characters) nor the EVM pattern (\<open>0x\<close> followed by exactly 40
  hexadecimal characters) fails validation, and \<open>calculateCreditScore\<close> fails with the
  invalid-address error without issuing a request. An address that matches one of the
  patterns passes validation, and the scorer runs and issues its requests.
\<close>

theorem C7_invalid_address_rejected:
  "(\<not> spec_bech32_pattern a \<and> \<not> spec_evm_pattern a \<longrightarrow>
      isValidSeiAddress a = False \<and> calculateCreditScore w a = (Inl InvalidAddressFormat, []))
   \<and> (spec_bech32_pattern a \<or> spec_evm_pattern a \<longrightarrow>
      isValidSeiAddress a = True
      \<and> calculateCreditScore w a = (Inr (fst (calculate w a)), snd (calculate w a))
      \<and> snd (calculateCreditScore w a) \<noteq> [])"
  using snd_calculate [of w a]
  by (auto simp: isValidSeiAddress_def calculateCreditScore_def bech32Regex_pattern
      evmRegex_pattern split: prod.splits)

theorem C7_invalid_address_witness:
  "\<not> spec_bech32_pattern ''abc'' \<and> \<not> spec_evm_pattern ''abc''
   \<and> calculateCreditScore down_world ''abc'' = (Inl InvalidAddressFormat, [])
   \<and> (spec_bech32_pattern sei_address \<or> spec_evm_pattern sei_address)
   \<and> isValidSeiAddress sei_address = True"
  using C7_invalid_address_rejected [of "''abc''" down_world]
    C7_invalid_address_rejected [of sei_address down_world]
    sei_address_valid abc_invalid
  by (simp add: bech32Regex_pattern evmRegex_pattern)


section \<open>The fallback tier of the transaction list\<close>

lemma query_step_txs:
  "query_step w limit allT q =
     allT @ filter (\<lambda>tx. \<not> list_ex (\<lambda>existing. txhash existing = txhash tx) allT) (query_txs w limit q)"
  by (simp add: query_step_def query_txs_def split: http.split option.split)

lemma query_step_failed:
  "tx_search w q limit = Failed \<or> tx_search w q limit = NotOk \<Longrightarrow> query_step w limit allT q = allT"
  by (auto simp: query_step_def)

lemma query_step_distinct:
  assumes "distinct (map txhash allT)" and "distinct (map txhash (query_txs w limit q))"
  shows "distinct (map txhash (query_step w limit allT q))"
  using assms by (auto simp: query_step_txs distinct_map_filter list_ex_iff)

lemma query_step_hashes:
  "txhash ` set (query_step w limit allT q) = txhash ` set allT \<union> txhash ` set (query_txs w limit q)"
proof -
  have "txhash x \<in> txhash ` set (query_step w limit allT q)"
    if "x \<in> set (query_txs w limit q)" for x
  proof (cases "\<exists>e\<in>set allT. txhash e = txhash x")
    case True
    then obtain e where "e \<in> set allT" "txhash e = txhash x" by blast
    from this(1) have "e \<in> set (query_step w limit allT q)"
      by (simp add: query_step_txs)
    then have "txhash e \<in> txhash ` set (query_step w limit allT q)"
      by (rule imageI)
    then show ?thesis using \<open>txhash e = txhash x\<close> by simp
  next
    case False
    then have "x \<in> set (query_step w limit allT q)"
      using that by (simp add: query_step_txs list_ex_iff)
    then show ?thesis by blast
  qed
  moreover have "set (query_step w limit allT q) \<subseteq> set allT \<union> set (query_txs w limit q)"
    by (auto simp: query_step_txs)
  moreover have "set allT \<subseteq> set (query_step w limit allT q)"
    by (auto simp: query_step_txs)
  ultimately show ?thesis by blast
qed

lemma query_loop_distinct:
  assumes "list_all (\<lambda>q. distinct (map txhash (query_txs w limit q))) qs"
    and "distinct (map txhash allT)"
  shows "distinct (map txhash (query_loop w limit qs allT))"
  using assms
proof (induction qs arbitrary: allT)
  case Nil
  then show ?case by simp
next
  case (Cons q qs)
  then show ?case by (simp add: query_step_distinct)
qed

lemma query_loop_hashes:
  "txhash ` set (query_loop w limit qs allT) =
     txhash ` set allT \<union> (\<Union>q\<in>set qs. txhash ` set (query_txs w limit q))"
proof (induction qs arbitrary: allT)
  case Nil
  then show ?case by simp
next
  case (Cons q qs)
  show ?case by (simp add: Cons.IH query_step_hashes Un_assoc)
qed

lemma set_insert_by: "set (insert_by cmp x ys) = insert x (set ys)"
  by (induction ys) auto

lemma set_array_sort: "set (array_sort cmp xs) = set xs"
  unfolding array_sort_def by (induction xs) (simp_all add: set_insert_by)

lemma length_insert_by: "length (insert_by cmp x ys) = Suc (length ys)"
  by (induction ys) auto

lemma length_array_sort: "length (array_sort cmp xs) = length xs"
  unfolding array_sort_def by (induction xs) (simp_all add: length_insert_by)

lemma distinct_insert_by:
  "distinct (map f (insert_by cmp x ys)) = (f x \<notin> f ` set ys \<and> distinct (map f ys))"
  by (induction ys) (auto simp: set_insert_by)

lemma distinct_array_sort: "distinct (map f (array_sort cmp xs)) = distinct (map f xs)"
  unfolding array_sort_def
proof (induction xs)
  case Nil
  show ?case by simp
next
  case (Cons x xs)
  have "set (foldr (insert_by cmp) xs []) = set xs"
    using set_array_sort [of cmp xs] by (simp add: array_sort_def)
  with Cons show ?case by (simp add: distinct_insert_by)
qed

lemma sorted_insert_by_height:
  assumes "sorted_wrt (\<lambda>x y. height y \<le> height x) ys"
  shows "sorted_wrt (\<lambda>x y. height y \<le> height x) (insert_by (\<lambda>a b. height b - height a) x ys)"
  using assms by (induction ys) (auto simp: set_insert_by)

lemma sorted_array_sort_height:
  "sorted_wrt (\<lambda>x y. height y \<le> height x) (array_sort (\<lambda>a b. height b - height a) xs)"
  unfolding array_sort_def by (induction xs) (simp_all add: sorted_insert_by_height)

lemma queries_distinct: "distinct (queries a) \<and> length (queries a) = 5"
  by (simp add: queries_def)


lemma fetchWalletTransactions_fallback:
  assumes "explorer_transactions w a limit None = Failed
           \<or> explorer_transactions w a limit None = NotOk
           \<or> explorer_transactions w a limit None = Json []"
  shows "fetchWalletTransactions w a limit =
           (fst (fallback_tier w a limit),
            GetExplorerTransactions a limit None # snd (fallback_tier w a limit))"
  using assms by (auto simp: fetchWalletTransactions_def Let_def split: prod.splits)

lemma query_loop_skip:
  assumes "tx_search w q limit = Failed \<or> tx_search w q limit = NotOk"
  shows "query_loop w limit (q # rest) allT = query_loop w limit rest allT"
  by (simp add: query_step_failed [OF assms])

lemma overlap_world_queries:
  "list_all (\<lambda>q. distinct (map txhash (query_txs overlap_world 2 q))) (queries sei_address)"
  by code_simp

lemma overlap_world_result:
  "fst (fallback_tier overlap_world sei_address 2) = [tx_of ''H2'' 9, tx_of ''H3'' 7]"
  by code_simp

lemma dup_world_result:
  "fst (fetchWalletTransactions dup_world sei_address 100) = [dup_tx, dup_tx]"
  by code_simp


text \<open>
  Claim C8, as amended. In the fallback tier, for all results of the five search queries in
  which no single result lists a transaction hash twice, the merged result has no two
  entries with the same hash; for all results it is sorted by height, highest first, and
  has at most \<open>limit\<close> entries. All five queries are issued whatever their outcomes; a
  failed query is skipped and the loop goes on with the rest, so the merged list holds
  the hashes of every query that answered.
\<close>

theorem C8_fallback_merge:
  "(list_all (\<lambda>q. distinct (map txhash (query_txs w limit q))) (queries a) \<longrightarrow>
      distinct (map txhash (fst (fallback_tier w a limit))))
    \<and> sorted_wrt (\<lambda>x y. height y \<le> height x) (fst (fallback_tier w a limit))
    \<and> length (fst (fallback_tier w a limit)) \<le> limit
    \<and> fst (fallback_tier w a limit) =
        take limit (array_sort (\<lambda>a b. height b - height a) (query_loop w limit (queries a) []))
    \<and> txhash ` set (query_loop w limit (queries a) []) =
        (\<Union>q\<in>set (queries a). txhash ` set (query_txs w limit q))
    \<and> snd (fallback_tier w a limit) = map (\<lambda>q. GetTxSearch q limit) (queries a)
    \<and> length (queries a) = 5 \<and> distinct (queries a)
    \<and> (\<forall>q rest allT. tx_search w q limit = Failed \<or> tx_search w q limit = NotOk \<longrightarrow>
          query_loop w limit (q # rest) allT = query_loop w limit rest allT)
    \<and> (explorer_transactions w a limit None = Failed
         \<or> explorer_transactions w a limit None = NotOk
         \<or> explorer_transactions w a limit None = Json [] \<longrightarrow>
        fetchWalletTransactions w a limit =
          (fst (fallback_tier w a limit),
           GetExplorerTransactions a limit None # snd (fallback_tier w a limit)))"
proof -
  define merged where "merged = query_loop w limit (queries a) []"
  define sorted_txs where "sorted_txs = array_sort (\<lambda>a b. height b - height a) merged"
  have res: "fst (fallback_tier w a limit) = take limit sorted_txs"
    by (simp add: fallback_tier_def sorted_txs_def merged_def)
  have d: "distinct (map txhash (take limit sorted_txs))"
    if "list_all (\<lambda>q. distinct (map txhash (query_txs w limit q))) (queries a)"
  proof -
    have "distinct (map txhash merged)"
      unfolding merged_def by (rule query_loop_distinct [OF that]) simp
    then have "distinct (map txhash sorted_txs)"
      by (simp add: sorted_txs_def distinct_array_sort)
    then show ?thesis
      by (simp add: take_map [symmetric])
  qed
  have "sorted_wrt (\<lambda>x y. height y \<le> height x) sorted_txs"
    unfolding sorted_txs_def by (rule sorted_array_sort_height)
  then have s: "sorted_wrt (\<lambda>x y. height y \<le> height x) (take limit sorted_txs)"
    by (rule sorted_wrt_take)
  have h: "txhash ` set merged = (\<Union>q\<in>set (queries a). txhash ` set (query_txs w limit q))"
    unfolding merged_def by (simp add: query_loop_hashes)
  show ?thesis
    using d s h queries_distinct [of a] query_loop_skip [of w _ limit]
      fetchWalletTransactions_fallback [of w a limit]
    unfolding res
    by (simp add: sorted_txs_def merged_def fallback_tier_def)
qed

theorem C8_fallback_merge_witness:
  "list_all (\<lambda>q. distinct (map txhash (query_txs overlap_world 2 q))) (queries sei_address)
   \<and> tx_search overlap_world (''transfer.sender='' @ quoted sei_address) 2 = Failed
   \<and> explorer_transactions overlap_world sei_address 2 None = Failed
   \<and> fst (fetchWalletTransactions overlap_world sei_address 2) = [tx_of ''H2'' 9, tx_of ''H3'' 7]
   \<and> distinct (map txhash [tx_of ''H2'' 9, tx_of ''H3'' 7])
   \<and> query_loop overlap_world 2 [''transfer.sender='' @ quoted sei_address] [] = []"
proof -
  have e: "explorer_transactions overlap_world sei_address 2 None = Failed"
    by (simp add: overlap_world_def)
  have f: "tx_search overlap_world (''transfer.sender='' @ quoted sei_address) 2 = Failed"
    by (simp add: overlap_world_def)
  note T = C8_fallback_merge [of overlap_world 2 sei_address]
  from T e have "fetchWalletTransactions overlap_world sei_address 2 =
      (fst (fallback_tier overlap_world sei_address 2),
       GetExplorerTransactions sei_address 2 None # snd (fallback_tier overlap_world sei_address 2))"
    by blast
  then have r: "fst (fetchWalletTransactions overlap_world sei_address 2) = [tx_of ''H2'' 9, tx_of ''H3'' 7]"
    by (simp add: overlap_world_result)
  from T overlap_world_queries
  have "distinct (map txhash (fst (fallback_tier overlap_world sei_address 2)))"
    by blast
  then have d: "distinct (map txhash [tx_of ''H2'' 9, tx_of ''H3'' 7])"
    by (simp only: overlap_world_result)
  from T f have "query_loop overlap_world 2 [''transfer.sender='' @ quoted sei_address] [] =
      query_loop overlap_world 2 [] []"
    by blast
  then have s: "query_loop overlap_world 2 [''transfer.sender='' @ quoted sei_address] [] = []"
    by (simp only: query_loop.simps)
  show ?thesis
    using overlap_world_queries e f r d s by blast
qed

text \<open>
  Without the condition on the single results the claim fails. The loop removes from the
  transactions of a query those of the queries before it, which is the deduplication
  across the result sets; a result that lists one transaction twice is merged with both
  copies. With the explorer down and every search answering with the same transaction
  twice, \<open>fetchWalletTransactions\<close> returns that transaction twice.
\<close>

theorem C8_duplicates_counterexample:
  "\<not> distinct (map txhash (fst (fetchWalletTransactions dup_world sei_address 100)))"
  by (simp add: dup_world_result)

section \<open>The balance fetch\<close>

lemma evmRegex_startsWith: "evmRegex a \<Longrightarrow> startsWith a ''0x''"
  by (simp add: evmRegex_def startsWith_def numeral_2_eq_2)

lemma bech32Regex_not_startsWith:
  assumes "bech32Regex b"
  shows "\<not> startsWith b ''0x''"
proof
  assume "startsWith b ''0x''"
  then have "take 2 (take 3 b) = ''0x''"
    by (simp add: startsWith_def numeral_2_eq_2)
  moreover have "take 3 b = ''sei''"
    using assms by (simp add: bech32Regex_def)
  ultimately show False by simp
qed

lemma snd_fetchEvmBalance: "snd (fetchEvmBalance w a) = [PostEvmGetBalance a]"
  by (simp add: fetchEvmBalance_def)

lemma fetchEvmBalance_value:
  assumes "evm_get_balance w a = Json d" and "evm_error d = None"
    and "parseInt (evm_result d) (Some 16) = Num wei"
  shows "fst (fetchEvmBalance w a) = Num (wei / 10 ^ 18)"
  using assms by (simp add: fetchEvmBalance_def)

lemma fetchEvmBalance_fails: "evm_fails w a \<Longrightarrow> fst (fetchEvmBalance w a) = Num 0"
  by (auto simp: evm_fails_def fetchEvmBalance_def split: http.splits option.splits)

lemma cosmos_balance_value:
  assumes "bank_balances w a = Json d"
    and "find (\<lambda>x. denom x = ''usei'') (balances d) = Some c"
    and "parseInt (amount c) None = Num usei"
  shows "cosmos_balance w a = Num (usei / 10 ^ 6)"
  using assms by (simp add: cosmos_balance_def)

lemma cosmos_balance_nothing: "native_fails_or_nothing w a \<Longrightarrow> cosmos_balance w a = Num 0"
  by (auto simp: native_fails_or_nothing_def cosmos_balance_def split: http.splits option.splits)

lemma fetchWalletBalance_evm:
  assumes "startsWith a ''0x''"
  shows "fetchWalletBalance w a =
     (if num_gt (fst (fetchEvmBalance w a)) 0 then (fst (fetchEvmBalance w a), [PostEvmGetBalance a])
      else (cosmos_balance w a, [PostEvmGetBalance a, GetBankBalances a]))"
  using assms snd_fetchEvmBalance [of w a]
  by (auto simp: fetchWalletBalance_def split: prod.splits)

lemma fetchWalletBalance_native:
  assumes "\<not> startsWith b ''0x''"
  shows "fetchWalletBalance w b = (cosmos_balance w b, [GetBankBalances b])"
  using assms by (simp add: fetchWalletBalance_def)

lemma evm_address_valid: "evmRegex evm_address"
  by code_simp

lemma rich_world_evm: "fst (fetchEvmBalance rich_world evm_address) = Num 1"
  by code_simp

lemma zero_evm_world_evm: "fst (fetchEvmBalance zero_evm_world evm_address) = Num 0"
  by code_simp

lemma cosmos_balance_worlds:
  "cosmos_balance zero_evm_world evm_address = Num (3 / 2)"
  "cosmos_balance rich_world sei_address = Num (3 / 2)"
  by code_simp+

lemma down_world_fails:
  "evm_fails down_world evm_address" "native_fails_or_nothing down_world evm_address"
  by (simp_all add: evm_fails_def native_fails_or_nothing_def down_world_def)

text \<open>
  Claim C9. For an EVM address the balance fetch first issues the \<open>eth_getBalance\<close>
  query, whose result in wei is divided by \<open>10^18\<close>; a positive balance is returned as
  it is; when the query yields zero or fails, the bank query follows, whose \<open>usei\<close>
  amount is divided by \<open>10^6\<close>; when both fail or return nothing the balance is 0 and the
  balance sub-score is \<open>-30\<close>. For a native address only the bank query is issued.
\<close>

theorem C9_balance_fetch:
  assumes "evmRegex a" and "bech32Regex b"
  shows "snd (fetchEvmBalance w a) = [PostEvmGetBalance a]
    \<and> (\<forall>d wei. evm_get_balance w a = Json d \<and> evm_error d = None
            \<and> parseInt (evm_result d) (Some 16) = Num wei
          \<longrightarrow> fst (fetchEvmBalance w a) = Num (wei / 10 ^ 18))
    \<and> (evm_fails w a \<longrightarrow> fst (fetchEvmBalance w a) = Num 0)
    \<and> (num_gt (fst (fetchEvmBalance w a)) 0 \<longrightarrow>
          fetchWalletBalance w a = (fst (fetchEvmBalance w a), [PostEvmGetBalance a]))
    \<and> (fst (fetchEvmBalance w a) = Num 0 \<longrightarrow>
          fetchWalletBalance w a = (cosmos_balance w a, [PostEvmGetBalance a, GetBankBalances a]))
    \<and> (\<not> num_gt (fst (fetchEvmBalance w a)) 0 \<longrightarrow>
          fetchWalletBalance w a = (cosmos_balance w a, [PostEvmGetBalance a, GetBankBalances a]))
    \<and> (\<forall>d c usei. bank_balances w a = Json d
            \<and> find (\<lambda>x. denom x = ''usei'') (balances d) = Some c
            \<and> parseInt (amount c) None = Num usei
          \<longrightarrow> cosmos_balance w a = Num (usei / 10 ^ 6))
    \<and> (native_fails_or_nothing w a \<longrightarrow> cosmos_balance w a = Num 0)
    \<and> ((evm_fails w a \<or> fst (fetchEvmBalance w a) = Num 0) \<and> native_fails_or_nothing w a \<longrightarrow>
          fst (fetchWalletBalance w a) = Num 0
          \<and> scoreBalance (fst (fetchWalletBalance w a)) = - 30)
    \<and> fetchWalletBalance w b = (cosmos_balance w b, [GetBankBalances b])"
proof -
  note evm = fetchWalletBalance_evm [OF evmRegex_startsWith [OF assms(1)], of w]
  have 1: "fst (fetchEvmBalance w a) = Num 0 \<Longrightarrow>
      fetchWalletBalance w a = (cosmos_balance w a, [PostEvmGetBalance a, GetBankBalances a])"
    by (simp add: evm)
  have nz: "\<not> num_gt (fst (fetchEvmBalance w a)) 0 \<Longrightarrow>
      fetchWalletBalance w a = (cosmos_balance w a, [PostEvmGetBalance a, GetBankBalances a])"
    by (simp add: evm)
  have 2: "num_gt (fst (fetchEvmBalance w a)) 0 \<Longrightarrow>
      fetchWalletBalance w a = (fst (fetchEvmBalance w a), [PostEvmGetBalance a])"
    by (simp add: evm)
  have 3: "fst (fetchWalletBalance w a) = Num 0 \<and> scoreBalance (fst (fetchWalletBalance w a)) = - 30"
    if "evm_fails w a \<or> fst (fetchEvmBalance w a) = Num 0" and "native_fails_or_nothing w a"
  proof -
    have "fst (fetchEvmBalance w a) = Num 0"
      using that(1) fetchEvmBalance_fails by blast
    then have "fst (fetchWalletBalance w a) = Num 0"
      using 1 cosmos_balance_nothing [OF that(2)] by simp
    then show ?thesis by (simp add: scoreBalance_def)
  qed
  show ?thesis
    using 1 nz 2 3 snd_fetchEvmBalance [of w a] fetchEvmBalance_value [of w a]
      fetchEvmBalance_fails [of w a] cosmos_balance_value [of w a]
      cosmos_balance_nothing [of w a]
      fetchWalletBalance_native [OF bech32Regex_not_startsWith [OF assms(2)], of w]
    by blast
qed

theorem C9_balance_fetch_witness:
  "evmRegex evm_address \<and> bech32Regex sei_address
   \<and> fetchWalletBalance rich_world evm_address = (Num 1, [PostEvmGetBalance evm_address])
   \<and> fetchWalletBalance zero_evm_world evm_address =
       (Num (3 / 2), [PostEvmGetBalance evm_address, GetBankBalances evm_address])
   \<and> evm_fails down_world evm_address \<and> native_fails_or_nothing down_world evm_address
   \<and> fst (fetchWalletBalance down_world evm_address) = Num 0
   \<and> scoreBalance (fst (fetchWalletBalance down_world evm_address)) = - 30
   \<and> fetchWalletBalance rich_world sei_address = (Num (3 / 2), [GetBankBalances sei_address])"
proof -
  note R = C9_balance_fetch [OF evm_address_valid sei_address_valid, of rich_world]
  note Z = C9_balance_fetch [OF evm_address_valid sei_address_valid, of zero_evm_world]
  note D = C9_balance_fetch [OF evm_address_valid sei_address_valid, of down_world]
  have "num_gt (fst (fetchEvmBalance rich_world evm_address)) 0"
    by (simp add: rich_world_evm)
  with R have r: "fetchWalletBalance rich_world evm_address = (Num 1, [PostEvmGetBalance evm_address])"
    by (simp add: rich_world_evm)
  from Z zero_evm_world_evm
  have z: "fetchWalletBalance zero_evm_world evm_address =
       (Num (3 / 2), [PostEvmGetBalance evm_address, GetBankBalances evm_address])"
    by (simp add: cosmos_balance_worlds)
  from D down_world_fails
  have d: "fst (fetchWalletBalance down_world evm_address) = Num 0
       \<and> scoreBalance (fst (fetchWalletBalance down_world evm_address)) = - 30"
    by blast
  from R have n: "fetchWalletBalance rich_world sei_address = (Num (3 / 2), [GetBankBalances sei_address])"
    by (simp add: cosmos_balance_worlds)
  show ?thesis
    using evm_address_valid sei_address_valid r z d n down_world_fails by blast
qed


end
